theory Spec2Isabelle
  imports Complex_Main
begin

section \<open>The hole-mask geometry of \<^verbatim>\<open>src/MaskLayer.tsx\<close>\<close>

text \<open>
  The component \<^verbatim>\<open>MaskLayer\<close> computes, from a \<^verbatim>\<open>Position\<close> descriptor, the edges of
  the hole cut into an overlay and, for circles, decides whether a click falls into the
  hole. The helper closures of the component are embedded here one by one, under their
  own names.

  Conventions of the embedding.
  \<^item> A JavaScript \<^verbatim>\<open>number\<close> is taken as a \<^typ>\<open>real\<close>: arithmetic is exact, the
    rounding of IEEE doubles is left out.
  \<^item> A \<^verbatim>\<open>throw new Error(...)\<close> is a value \<open>Inl e\<close> of the sum type, the returned
    value is \<open>Inr v\<close>.
  \<^item> A template literal \<^verbatim>\<open>`calc(${a} + ${b})`\<close> is kept as the tree of its parts
    (\<open>Calc a Plus b\<close>); \<open>render\<close> gives back the text the literal builds.
\<close>

subsection \<open>Data\<close>

text \<open>\<^verbatim>\<open>type Unit = 'px' | '%'\<close>\<close>

datatype Unit = Px | Percent

text \<open>\<^verbatim>\<open>Position['anchor']\<close> and \<^verbatim>\<open>Position['shape']\<close>, unions of string literals.\<close>

datatype Anchor =
  ANCHOR_MIDDLE | ANCHOR_TOP_LEFT | ANCHOR_TOP_RIGHT | ANCHOR_BOTTOM_LEFT | ANCHOR_BOTTOM_RIGHT

datatype Shape = SHAPE_RECTANGLE | SHAPE_SQUARE | SHAPE_CIRCLE

text \<open>
  \<^verbatim>\<open>interface Position\<close>. The fields \<^verbatim>\<open>x\<close>, \<^verbatim>\<open>y\<close> and \<^verbatim>\<open>size\<close> are strings at run time
  (the template-literal types are erased), so they are modelled as strings.
\<close>

record Position =
  posX :: string
  posY :: string
  posSize :: string
  posAnchor :: Anchor
  posShape :: Shape

text \<open>
  The two errors the component throws, each with the offending text its message quotes:
  \<^verbatim>\<open>Invalid position value: ...\<close> (from \<^verbatim>\<open>parseValue\<close>) and
  \<^verbatim>\<open>Invalid rectangle dimensions: ...\<close> (from \<^verbatim>\<open>parseRectangleDimensions\<close>).
\<close>

datatype error = InvalidPositionValue string | InvalidRectangleDimensions string

text \<open>The object \<^verbatim>\<open>{ value: number, unit: Unit }\<close> that the parsers return.\<close>

record Length =
  lvalue :: real
  lunit :: Unit

subsection \<open>The length pattern and \<^verbatim>\<open>parseValue\<close>\<close>

text \<open>\<^verbatim>\<open>\d\<close> of a JavaScript regular expression: the ten ASCII digits.\<close>

definition isDigit :: "char \<Rightarrow> bool" where
  "isDigit c \<longleftrightarrow> c \<in> set ''0123456789''"

definition digitValue :: "char \<Rightarrow> nat" where
  "digitValue c = of_char c - 48"

definition digitsValue :: "string \<Rightarrow> nat" where
  "digitsValue ds = foldl (\<lambda>a c. 10 * a + digitValue c) 0 ds"

definition isUnitText :: "string \<Rightarrow> bool" where
  "isUnitText u \<longleftrightarrow> u = ''px'' \<or> u = ''%''"

text \<open>
  \<^verbatim>\<open>value.match(/^(\d+(?:\.\d+)?)(px|%)$/)\<close>: \<open>None\<close> for \<^verbatim>\<open>null\<close>, otherwise the two
  capture groups \<^verbatim>\<open>match[1]\<close> and \<^verbatim>\<open>match[2]\<close>. The matcher reads the digits greedily,
  tries the optional fraction group first and the pattern without it second, and demands
  that the unit ends the input.
\<close>

definition matchLength :: "string \<Rightarrow> (string \<times> string) option" where
  "matchLength s =
     (let ip = takeWhile isDigit s; r = dropWhile isDigit s in
      if ip = [] then None
      else (case r of
              [] \<Rightarrow> None
            | c # r' \<Rightarrow>
                (let fp = takeWhile isDigit r'; u = dropWhile isDigit r' in
                 if c = CHR ''.'' \<and> fp \<noteq> [] \<and> isUnitText u then Some (ip @ c # fp, u)
                 else if isUnitText r then Some (ip, r)
                 else None)))"

text \<open>
  \<^verbatim>\<open>parseFloat\<close> on the text of the first capture group, an unsigned decimal numeral:
  the number its digits denote.
\<close>

definition parseFloat :: "string \<Rightarrow> real" where
  "parseFloat s =
     (let ip = takeWhile isDigit s in
      case dropWhile isDigit s of
        [] \<Rightarrow> real (digitsValue ip)
      | c # r \<Rightarrow>
          (if c = CHR ''.''
           then real (digitsValue ip)
                + real (digitsValue (takeWhile isDigit r)) / 10 ^ length (takeWhile isDigit r)
           else real (digitsValue ip)))"

text \<open>\<^verbatim>\<open>match[2] as Unit\<close>: the second group is \<^verbatim>\<open>px\<close> or \<^verbatim>\<open>%\<close>.\<close>

definition asUnit :: "string \<Rightarrow> Unit" where
  "asUnit u = (if u = ''px'' then Px else Percent)"

definition parseValue :: "string \<Rightarrow> error + Length" where
  "parseValue v =
     (case matchLength v of
        None \<Rightarrow> Inl (InvalidPositionValue v)
      | Some (m1, m2) \<Rightarrow> Inr \<lparr>lvalue = parseFloat m1, lunit = asUnit m2\<rparr>)"

subsection \<open>The grammar of a length, as the specification writes it\<close>

text \<open>
  The specification's grammar \<^verbatim>\<open>^\d+(\.\d+)?(px|%)$\<close>, stated as a language and not as
  a matching procedure: one or more digits, optionally a dot and one or more digits, then
  the unit, and nothing else.
\<close>

definition unitText :: "Unit \<Rightarrow> string" where
  "unitText u = (case u of Px \<Rightarrow> ''px'' | Percent \<Rightarrow> ''%'')"




subsection \<open>Splitting the size text\<close>

text \<open>
  \<^verbatim>\<open>value.split(' ')\<close>: the parts of the text between its space characters (U+0020), in
  order, empty parts included; the result is never the empty array.
\<close>

fun splitSpace :: "string \<Rightarrow> string list" where
  "splitSpace [] = [[]]"
| "splitSpace (c # cs) =
     (if c = CHR '' '' then [] # splitSpace cs
      else (c # hd (splitSpace cs)) # tl (splitSpace cs))"

text \<open>\<^verbatim>\<open>size.includes(' ')\<close>\<close>

definition includesSpace :: "string \<Rightarrow> bool" where
  "includesSpace s \<longleftrightarrow> CHR '' '' \<in> set s"

subsection \<open>\<^verbatim>\<open>parseRectangleDimensions\<close> and \<^verbatim>\<open>getShapeSize\<close>\<close>

record Dimensions =
  width :: Length
  height :: Length

definition parseRectangleDimensions :: "string \<Rightarrow> error + Dimensions" where
  "parseRectangleDimensions v =
     (case splitSpace v of
        [p0, p1] \<Rightarrow>
          (case matchLength p0 of
             None \<Rightarrow> Inl (InvalidRectangleDimensions v)
           | Some (w1, w2) \<Rightarrow>
               (case matchLength p1 of
                  None \<Rightarrow> Inl (InvalidRectangleDimensions v)
                | Some (h1, h2) \<Rightarrow>
                    Inr \<lparr>width = \<lparr>lvalue = parseFloat w1, lunit = asUnit w2\<rparr>,
                         height = \<lparr>lvalue = parseFloat h1, lunit = asUnit h2\<rparr>\<rparr>))
      | _ \<Rightarrow> Inl (InvalidRectangleDimensions v))"

definition getShapeSize :: "string \<Rightarrow> Shape \<Rightarrow> string" where
  "getShapeSize sz sh =
     (case sh of
        SHAPE_RECTANGLE \<Rightarrow> if \<not> includesSpace sz then sz @ '' '' @ sz else sz
      | SHAPE_SQUARE \<Rightarrow> if includesSpace sz then hd (splitSpace sz) else sz
      | SHAPE_CIRCLE \<Rightarrow> if includesSpace sz then hd (splitSpace sz) else sz)"

subsection \<open>Coordinate expressions\<close>

text \<open>
  The edges and centres the component returns are CSS texts: either a position text as
  it was given, or \<^verbatim>\<open>`calc(${a} + ${b})`\<close> / \<^verbatim>\<open>`calc(${a} - ${b})`\<close>. The second
  operand is interpolated either as a text (\<^verbatim>\<open>${holePosition.size}\<close>) or as a number
  followed by a unit (\<^verbatim>\<open>${radius}${unit}\<close>).
\<close>

datatype Sign = Plus | Minus

datatype Operand = Text string | Number real Unit

datatype Coordinate = Plain string | Calc string Sign Operand

text \<open>
  The text a template literal builds. The conversion of a number to its text
  (ECMAScript \<^verbatim>\<open>Number::toString\<close>) is the parameter \<open>fmt\<close>.
\<close>

definition renderOperand :: "(real \<Rightarrow> string) \<Rightarrow> Operand \<Rightarrow> string" where
  "renderOperand fmt b = (case b of Text t \<Rightarrow> t | Number v u \<Rightarrow> fmt v @ unitText u)"

definition render :: "(real \<Rightarrow> string) \<Rightarrow> Coordinate \<Rightarrow> string" where
  "render fmt e =
     (case e of
        Plain t \<Rightarrow> t
      | Calc a sg b \<Rightarrow>
          ''calc('' @ a @ (case sg of Plus \<Rightarrow> '' + '' | Minus \<Rightarrow> '' - '')
            @ renderOperand fmt b @ '')'')"

subsection \<open>\<^verbatim>\<open>calculateCircleCenter\<close>, \<^verbatim>\<open>isClickInsideCircle\<close>, \<^verbatim>\<open>positionToPixels\<close>\<close>

record CircleCenter =
  centerX :: Coordinate
  centerY :: Coordinate

definition calculateCircleCenter ::
  "string \<Rightarrow> string \<Rightarrow> real \<Rightarrow> Unit \<Rightarrow> Anchor \<Rightarrow> CircleCenter" where
  "calculateCircleCenter x y radius u a =
     (case a of
        ANCHOR_TOP_LEFT \<Rightarrow>
          \<lparr>centerX = Calc x Plus (Number radius u), centerY = Calc y Plus (Number radius u)\<rparr>
      | ANCHOR_TOP_RIGHT \<Rightarrow>
          \<lparr>centerX = Calc x Minus (Number radius u), centerY = Calc y Plus (Number radius u)\<rparr>
      | ANCHOR_BOTTOM_LEFT \<Rightarrow>
          \<lparr>centerX = Calc x Plus (Number radius u), centerY = Calc y Minus (Number radius u)\<rparr>
      | ANCHOR_BOTTOM_RIGHT \<Rightarrow>
          \<lparr>centerX = Calc x Minus (Number radius u), centerY = Calc y Minus (Number radius u)\<rparr>
      | ANCHOR_MIDDLE \<Rightarrow>
          \<lparr>centerX = Plain x, centerY = Plain y\<rparr>)"

definition isClickInsideCircle :: "real \<Rightarrow> real \<Rightarrow> real \<Rightarrow> real \<Rightarrow> real \<Rightarrow> bool" where
  "isClickInsideCircle clickX clickY cX cY radius \<longleftrightarrow>
     sqrt ((clickX - cX) ^ 2 + (clickY - cY) ^ 2) \<le> radius"

definition positionToPixels :: "real \<Rightarrow> Unit \<Rightarrow> real \<Rightarrow> real" where
  "positionToPixels v u containerSize = (if u = Percent then (containerSize * v) / 100 else v)"

subsection \<open>\<^verbatim>\<open>getHoleBoundaries\<close>\<close>

record Boundaries =
  holeLeft :: Coordinate
  holeTop :: Coordinate
  holeRight :: Coordinate
  holeBottom :: Coordinate

definition getHoleBoundaries :: "Position \<Rightarrow> error + Boundaries" where
  "getHoleBoundaries p =
     (case posShape p of
        SHAPE_RECTANGLE \<Rightarrow>
          (let rectangleSize = getShapeSize (posSize p) SHAPE_RECTANGLE in
           case parseRectangleDimensions rectangleSize of
             Inl e \<Rightarrow> Inl e
           | Inr dimensions \<Rightarrow>
               (let w = Number (lvalue (width dimensions)) (lunit (width dimensions));
                    h = Number (lvalue (height dimensions)) (lunit (height dimensions));
                    w2 = Number (lvalue (width dimensions) / 2) (lunit (width dimensions));
                    h2 = Number (lvalue (height dimensions) / 2) (lunit (height dimensions))
                in Inr
                  (case posAnchor p of
                     ANCHOR_TOP_LEFT \<Rightarrow>
                       \<lparr>holeLeft = Plain (posX p), holeTop = Plain (posY p),
                        holeRight = Calc (posX p) Plus w, holeBottom = Calc (posY p) Plus h\<rparr>
                   | ANCHOR_TOP_RIGHT \<Rightarrow>
                       \<lparr>holeLeft = Calc (posX p) Minus w, holeTop = Plain (posY p),
                        holeRight = Plain (posX p), holeBottom = Calc (posY p) Plus h\<rparr>
                   | ANCHOR_BOTTOM_LEFT \<Rightarrow>
                       \<lparr>holeLeft = Plain (posX p), holeTop = Calc (posY p) Minus h,
                        holeRight = Calc (posX p) Plus w, holeBottom = Plain (posY p)\<rparr>
                   | ANCHOR_BOTTOM_RIGHT \<Rightarrow>
                       \<lparr>holeLeft = Calc (posX p) Minus w, holeTop = Calc (posY p) Minus h,
                        holeRight = Plain (posX p), holeBottom = Plain (posY p)\<rparr>
                   | ANCHOR_MIDDLE \<Rightarrow>
                       \<lparr>holeLeft = Calc (posX p) Minus w2, holeTop = Calc (posY p) Minus h2,
                        holeRight = Calc (posX p) Plus w2, holeBottom = Calc (posY p) Plus h2\<rparr>)))
      | _ \<Rightarrow>
          (let singleSize = getShapeSize (posSize p) (posShape p) in
           case parseValue singleSize of
             Inl e \<Rightarrow> Inl e
           | Inr sizeParsed \<Rightarrow>
               (let s2 = Number (lvalue sizeParsed / 2) (lunit sizeParsed) in
                Inr
                  (case posAnchor p of
                     ANCHOR_TOP_LEFT \<Rightarrow>
                       \<lparr>holeLeft = Plain (posX p), holeTop = Plain (posY p),
                        holeRight = Calc (posX p) Plus (Text (posSize p)),
                        holeBottom = Calc (posY p) Plus (Text (posSize p))\<rparr>
                   | ANCHOR_TOP_RIGHT \<Rightarrow>
                       \<lparr>holeLeft = Calc (posX p) Minus (Text (posSize p)), holeTop = Plain (posY p),
                        holeRight = Plain (posX p),
                        holeBottom = Calc (posY p) Plus (Text (posSize p))\<rparr>
                   | ANCHOR_BOTTOM_LEFT \<Rightarrow>
                       \<lparr>holeLeft = Plain (posX p),
                        holeTop = Calc (posY p) Minus (Text (posSize p)),
                        holeRight = Calc (posX p) Plus (Text (posSize p)),
                        holeBottom = Plain (posY p)\<rparr>
                   | ANCHOR_BOTTOM_RIGHT \<Rightarrow>
                       \<lparr>holeLeft = Calc (posX p) Minus (Text (posSize p)),
                        holeTop = Calc (posY p) Minus (Text (posSize p)),
                        holeRight = Plain (posX p), holeBottom = Plain (posY p)\<rparr>
                   | ANCHOR_MIDDLE \<Rightarrow>
                       \<lparr>holeLeft = Calc (posX p) Minus s2, holeTop = Calc (posY p) Minus s2,
                        holeRight = Calc (posX p) Plus s2, holeBottom = Calc (posY p) Plus s2\<rparr>))))"

subsection \<open>The circle mask and \<^verbatim>\<open>handleCircleClick\<close>\<close>

text \<open>
  The branch \<^verbatim>\<open>if (holePosition.shape === 'SHAPE_CIRCLE')\<close> of the component body: the
  radius, its unit and the centre that it interpolates into the \<^verbatim>\<open>radial-gradient\<close>
  mask.
\<close>

record CircleMask =
  maskRadius :: real
  maskUnit :: Unit
  maskCenter :: CircleCenter

definition circleMask :: "Position \<Rightarrow> error + CircleMask" where
  "circleMask p =
     (let circleSize = getShapeSize (posSize p) SHAPE_CIRCLE in
      case parseValue circleSize of
        Inl e \<Rightarrow> Inl e
      | Inr sizeParsed \<Rightarrow>
          (let radius = lvalue sizeParsed / 2 in
           Inr \<lparr>maskRadius = radius, maskUnit = lunit sizeParsed,
                maskCenter =
                  calculateCircleCenter (posX p) (posY p) radius (lunit sizeParsed) (posAnchor p)\<rparr>))"

text \<open>
  The part of a mouse event that \<^verbatim>\<open>handleCircleClick\<close> reads: the client coordinates
  of the click and the bounding rectangle of the overlay.
\<close>

record ClickEvent =
  clientX :: real
  clientY :: real
  rectLeft :: real
  rectTop :: real
  rectWidth :: real
  rectHeight :: real

text \<open>
  The pixel circle that \<^verbatim>\<open>handleCircleClick\<close> computes before it tests the click
  (\<^verbatim>\<open>centerXPx\<close>, \<^verbatim>\<open>centerYPx\<close>, \<^verbatim>\<open>radiusPx\<close>), with the three calls of \<^verbatim>\<open>parseValue\<close>
  in the order of the source.
\<close>

record PixelCircle =
  centerXPx :: real
  centerYPx :: real
  radiusPx :: real

definition circlePixels :: "(real \<Rightarrow> string) \<Rightarrow> Position \<Rightarrow> ClickEvent \<Rightarrow> error + PixelCircle" where
  "circlePixels fmt p ev =
     (let circleSize = getShapeSize (posSize p) SHAPE_CIRCLE in
      case parseValue circleSize of
        Inl e \<Rightarrow> Inl e
      | Inr sizeParsed \<Rightarrow>
          (let radius = lvalue sizeParsed / 2;
               c = calculateCircleCenter (posX p) (posY p) radius (lunit sizeParsed) (posAnchor p)
           in case parseValue (render fmt (centerX c)) of
                Inl e \<Rightarrow> Inl e
              | Inr centerXValue \<Rightarrow>
                  (case parseValue (render fmt (centerY c)) of
                     Inl e \<Rightarrow> Inl e
                   | Inr centerYValue \<Rightarrow>
                       Inr \<lparr>centerXPx =
                              positionToPixels (lvalue centerXValue) (lunit centerXValue) (rectWidth ev),
                            centerYPx =
                              positionToPixels (lvalue centerYValue) (lunit centerYValue) (rectHeight ev),
                            radiusPx =
                              positionToPixels radius (lunit sizeParsed)
                                (min (rectWidth ev) (rectHeight ev))\<rparr>)))"

text \<open>
  The two ways \<^verbatim>\<open>handleCircleClick\<close> ends when nothing is thrown: a click inside the
  circle is dispatched to the parent element, a click outside is an overlay click.
\<close>

datatype ClickRoute = DispatchToParent | OverlayClick

definition handleCircleClick :: "(real \<Rightarrow> string) \<Rightarrow> Position \<Rightarrow> ClickEvent \<Rightarrow> error + ClickRoute" where
  "handleCircleClick fmt p ev =
     (let clickX = clientX ev - rectLeft ev; clickY = clientY ev - rectTop ev in
      case circlePixels fmt p ev of
        Inl e \<Rightarrow> Inl e
      | Inr c \<Rightarrow>
          Inr (if isClickInsideCircle clickX clickY (centerXPx c) (centerYPx c) (radiusPx c)
               then DispatchToParent else OverlayClick))"

subsection \<open>Pixel resolution of a coordinate expression\<close>

text \<open>
  Modelled from the spec: the component hands its \<^verbatim>\<open>calc(...)\<close> texts to the style engine
  of the browser, which is not part of the repository. Section 4.4 of the specification
  says how such an expression is resolved: the reference and the delta are each turned
  into pixels against the container's extent on the axis, then combined by the recorded
  operator. A length text is read by \<open>parseValue\<close>, a length becomes pixels by
  \<open>positionToPixels\<close>; a text that is no length cannot be resolved.
\<close>

definition resolveText :: "string \<Rightarrow> real \<Rightarrow> error + real" where
  "resolveText t containerSize =
     (case parseValue t of
        Inl e \<Rightarrow> Inl e
      | Inr l \<Rightarrow> Inr (positionToPixels (lvalue l) (lunit l) containerSize))"

definition resolveOperand :: "Operand \<Rightarrow> real \<Rightarrow> error + real" where
  "resolveOperand b containerSize =
     (case b of
        Text t \<Rightarrow> resolveText t containerSize
      | Number v u \<Rightarrow> Inr (positionToPixels v u containerSize))"

definition resolveCoordinate :: "Coordinate \<Rightarrow> real \<Rightarrow> error + real" where
  "resolveCoordinate e containerSize =
     (case e of
        Plain t \<Rightarrow> resolveText t containerSize
      | Calc a sg b \<Rightarrow>
          (case resolveText a containerSize of
             Inl err \<Rightarrow> Inl err
           | Inr ra \<Rightarrow>
               (case resolveOperand b containerSize of
                  Inl err \<Rightarrow> Inl err
                | Inr rb \<Rightarrow> Inr (case sg of Plus \<Rightarrow> ra + rb | Minus \<Rightarrow> ra - rb))))"

subsection \<open>Tokens, as the specification writes them\<close>

text \<open>
  Section 4.2 of the specification splits the size text on whitespace and speaks of the
  first whitespace-separated token. These two definitions follow those words (blank, tab,
  line feed, vertical tab, form feed, carriage return); they are compared with
  \<open>getShapeSize\<close> below and are used nowhere in the embedding of the code.
\<close>

definition isWhitespace :: "char \<Rightarrow> bool" where
  "isWhitespace c \<longleftrightarrow> c \<in> set [CHR 0x20, CHR 0x09, CHR 0x0A, CHR 0x0B, CHR 0x0C, CHR 0x0D]"

definition firstToken :: "string \<Rightarrow> string" where
  "firstToken s = takeWhile (\<lambda>c. \<not> isWhitespace c) (dropWhile isWhitespace s)"

subsection \<open>Descriptors of the examples\<close>

text \<open>End-to-end scenario 1 of the specification: a rectangle anchored at its middle.\<close>

definition scenario1 :: Position where
  "scenario1 = \<lparr>posX = ''50%'', posY = ''50%'', posSize = ''200px 100px'',
                 posAnchor = ANCHOR_MIDDLE, posShape = SHAPE_RECTANGLE\<rparr>"

text \<open>End-to-end scenario 3 of the specification: a circle anchored at its top left.\<close>

definition scenario3 :: Position where
  "scenario3 = \<lparr>posX = ''0px'', posY = ''0px'', posSize = ''100px'',
                 posAnchor = ANCHOR_TOP_LEFT, posShape = SHAPE_CIRCLE\<rparr>"

text \<open>The square of scenario 2 (\<^verbatim>\<open>squarePosition\<close> of the demo), anchored at its top left.\<close>

definition squareCorner :: Position where
  "squareCorner = \<lparr>posX = ''50%'', posY = ''50%'', posSize = ''200px 400px'',
                    posAnchor = ANCHOR_TOP_LEFT, posShape = SHAPE_SQUARE\<rparr>"

text \<open>A circle whose diameter is a percentage, and a click on an overlay of 1000 by 800.\<close>

definition percentCircle :: Position where
  "percentCircle = \<lparr>posX = ''50%'', posY = ''50%'', posSize = ''20%'',
                     posAnchor = ANCHOR_MIDDLE, posShape = SHAPE_CIRCLE\<rparr>"

definition wideOverlayClick :: ClickEvent where
  "wideOverlayClick = \<lparr>clientX = 510, clientY = 410, rectLeft = 10, rectTop = 10,
                        rectWidth = 1000, rectHeight = 800\<rparr>"

text \<open>A size text whose two lengths are separated by a tab.\<close>

definition tabbedSize :: string where
  "tabbedSize = ''200px'' @ [CHR 0x09] @ ''400px''"

section \<open>Properties of the parser\<close>




















section \<open>Evaluating the parser on the examples\<close>

lemmas parse_defs =
  parseValue_def matchLength_def parseFloat_def isDigit_def isUnitText_def asUnit_def
  digitsValue_def digitValue_def

lemma parseValue_100px: "parseValue ''100px'' = Inr \<lparr>lvalue = 100, lunit = Px\<rparr>"
  by (simp add: parse_defs)

lemma parseValue_200px: "parseValue ''200px'' = Inr \<lparr>lvalue = 200, lunit = Px\<rparr>"
  by (simp add: parse_defs)

lemma parseValue_50pct: "parseValue ''50%'' = Inr \<lparr>lvalue = 50, lunit = Percent\<rparr>"
  by (simp add: parse_defs)

lemma parseValue_20pct: "parseValue ''20%'' = Inr \<lparr>lvalue = 20, lunit = Percent\<rparr>"
  by (simp add: parse_defs)

lemma parseValue_no_digit:
  "\<not> isDigit c \<Longrightarrow> parseValue (c # t) = Inl (InvalidPositionValue (c # t))"
  by (simp add: parseValue_def matchLength_def)

lemma parseValue_calc:
  "parseValue (render fmt (Calc a sg b)) = Inl (InvalidPositionValue (render fmt (Calc a sg b)))"
  by (simp add: render_def parseValue_no_digit isDigit_def)

lemma render_Plain: "render fmt (Plain t) = t"
  by (simp add: render_def)

section \<open>The hit test\<close>


text \<open>
  On the circle of scenario 3 (centre \<open>(50, 50)\<close>, radius \<open>50\<close>) the test itself
  answers as the scenario expects.
\<close>

lemma scenario3_hit_test:
  "isClickInsideCircle 50 50 50 50 50 \<and> \<not> isClickInsideCircle 0 0 50 50 50"
proof -
  have "(50::real) < sqrt 5000" by (rule real_less_rsqrt) simp
  then show ?thesis by (simp add: isClickInsideCircle_def)
qed

section \<open>The click handler\<close>

text \<open>
  Claim C1. Scenario 3 expects the click handler to resolve the centre to \<open>(50, 50)\<close> and to
  classify the clicks. The handler does not get that far: for the anchor
  \<^verbatim>\<open>ANCHOR_TOP_LEFT\<close> the centre is the text \<^verbatim>\<open>calc(0px + 50px)\<close>, which \<open>parseValue\<close>
  rejects, so every click ends in the error \<^verbatim>\<open>Invalid position value\<close>, whatever the
  click and the overlay are.
\<close>

theorem handleCircleClick_corner_throws:
  "handleCircleClick fmt scenario3 ev
     = Inl (InvalidPositionValue (''calc(0px + '' @ fmt 50 @ ''px)''))"
proof -
  have size: "getShapeSize (posSize scenario3) SHAPE_CIRCLE = ''100px''"
    by (simp add: scenario3_def getShapeSize_def includesSpace_def)
  have c: "calculateCircleCenter (posX scenario3) (posY scenario3) 50 Px (posAnchor scenario3)
      = \<lparr>centerX = Calc ''0px'' Plus (Number 50 Px), centerY = Calc ''0px'' Plus (Number 50 Px)\<rparr>"
    by (simp add: scenario3_def calculateCircleCenter_def)
  have r: "render fmt (Calc ''0px'' Plus (Number 50 Px)) = ''calc(0px + '' @ fmt 50 @ ''px)''"
    by (simp add: render_def renderOperand_def unitText_def)
  have "circlePixels fmt scenario3 ev
      = Inl (InvalidPositionValue (''calc(0px + '' @ fmt 50 @ ''px)''))"
    unfolding circlePixels_def size Let_def
    by (simp add: parseValue_100px c r parseValue_no_digit isDigit_def)
  then show ?thesis
    by (simp add: handleCircleClick_def)
qed

lemma center_corner:
  "a \<noteq> ANCHOR_MIDDLE \<Longrightarrow>
   \<exists>sg. centerX (calculateCircleCenter x y r u a) = Calc x sg (Number r u)"
  by (cases a) (simp_all add: calculateCircleCenter_def)

lemma center_middle:
  "calculateCircleCenter x y r u ANCHOR_MIDDLE = \<lparr>centerX = Plain x, centerY = Plain y\<rparr>"
  by (simp add: calculateCircleCenter_def)

lemma circlePixels_middle:
  assumes "circlePixels fmt p ev = Inr c"
  shows "posAnchor p = ANCHOR_MIDDLE"
proof (rule ccontr)
  assume corner: "posAnchor p \<noteq> ANCHOR_MIDDLE"
  from assms obtain e where e: "parseValue (getShapeSize (posSize p) SHAPE_CIRCLE) = Inr e"
    by (auto simp: circlePixels_def Let_def split: sum.splits)
  from center_corner [OF corner] obtain sg where
    "centerX (calculateCircleCenter (posX p) (posY p) (lvalue e / 2) (lunit e) (posAnchor p))
      = Calc (posX p) sg (Number (lvalue e / 2) (lunit e))"
    by blast
  then have "circlePixels fmt p ev
      = Inl (InvalidPositionValue (render fmt (Calc (posX p) sg (Number (lvalue e / 2) (lunit e)))))"
    by (simp add: circlePixels_def Let_def e parseValue_calc)
  with assms show False by simp
qed

text \<open>
  Claim C10. Whenever the click handler gets its pixel circle, the radius (half the
  parsed size) was turned into pixels against the smaller of the overlay's width and
  height, so that a radius of \<open>p\<close> percent is \<open>min width height * p / 100\<close> pixels, while
  the centre's \<open>x\<close> was resolved against the width and its \<open>y\<close> against the height.
\<close>

theorem circle_pixels_axes:
  assumes "circlePixels fmt p ev = Inr c"
    and "parseValue (getShapeSize (posSize p) SHAPE_CIRCLE) = Inr e"
  shows "radiusPx c = positionToPixels (lvalue e / 2) (lunit e) (min (rectWidth ev) (rectHeight ev))
     \<and> positionToPixels (lvalue e / 2) Percent (min (rectWidth ev) (rectHeight ev))
         = min (rectWidth ev) (rectHeight ev) * (lvalue e / 2) / 100
     \<and> (\<exists>lx ly. parseValue (posX p) = Inr lx \<and> parseValue (posY p) = Inr ly
          \<and> centerXPx c = positionToPixels (lvalue lx) (lunit lx) (rectWidth ev)
          \<and> centerYPx c = positionToPixels (lvalue ly) (lunit ly) (rectHeight ev))"
proof -
  have mid: "posAnchor p = ANCHOR_MIDDLE"
    using assms(1) by (rule circlePixels_middle)
  from assms obtain lx ly
    where lx: "parseValue (posX p) = Inr lx" and ly: "parseValue (posY p) = Inr ly"
    by (auto simp: circlePixels_def Let_def mid center_middle render_Plain split: sum.splits)
  from assms lx ly have c:
    "c = \<lparr>centerXPx = positionToPixels (lvalue lx) (lunit lx) (rectWidth ev),
          centerYPx = positionToPixels (lvalue ly) (lunit ly) (rectHeight ev),
          radiusPx = positionToPixels (lvalue e / 2) (lunit e) (min (rectWidth ev) (rectHeight ev))\<rparr>"
    by (simp add: circlePixels_def Let_def mid center_middle render_Plain)
  have pct: "positionToPixels (lvalue e / 2) Percent (min (rectWidth ev) (rectHeight ev))
         = min (rectWidth ev) (rectHeight ev) * (lvalue e / 2) / 100"
    by (simp add: positionToPixels_def)
  from lx ly c pct show ?thesis by simp
qed

text \<open>
  The witness: a circle of diameter \<open>20%\<close> in the middle of an overlay of 1000 by 800 has
  the centre \<open>(500, 400)\<close> and the radius \<open>800 * 10 / 100 = 80\<close>. With \<^verbatim>\<open>ANCHOR_MIDDLE\<close> no
  number is interpolated into a text, so the conversion of numbers is fixed to a constant
  function here.
\<close>

theorem circle_pixels_axes_witness:
  "circlePixels (\<lambda>v. ''10'') percentCircle wideOverlayClick
     = Inr \<lparr>centerXPx = 500, centerYPx = 400, radiusPx = 80\<rparr>
   \<and> parseValue (getShapeSize (posSize percentCircle) SHAPE_CIRCLE)
       = Inr \<lparr>lvalue = 20, lunit = Percent\<rparr>
   \<and> radiusPx \<lparr>centerXPx = 500, centerYPx = 400, radiusPx = 80\<rparr>
       = min (rectWidth wideOverlayClick) (rectHeight wideOverlayClick) * (20 / 2) / 100"
proof -
  have s: "parseValue (getShapeSize (posSize percentCircle) SHAPE_CIRCLE)
      = Inr \<lparr>lvalue = 20, lunit = Percent\<rparr>"
    by (simp add: percentCircle_def getShapeSize_def includesSpace_def parseValue_20pct)
  have px: "circlePixels (\<lambda>v. ''10'') percentCircle wideOverlayClick
      = Inr \<lparr>centerXPx = 500, centerYPx = 400, radiusPx = 80\<rparr>"
    by (simp add: circlePixels_def percentCircle_def wideOverlayClick_def getShapeSize_def
        includesSpace_def parseValue_20pct center_middle render_Plain parseValue_50pct
        positionToPixels_def Let_def)
  from circle_pixels_axes [OF px s] px s show ?thesis
    by (simp add: positionToPixels_def)
qed

section \<open>The circle mask\<close>

text \<open>
  Claim C6. For a circle whose normalized size parses to the extent \<open>e\<close>, the mask has the
  radius \<open>e / 2\<close> in the unit of \<open>e\<close>. With the anchor \<^verbatim>\<open>ANCHOR_MIDDLE\<close> the centre is the
  reference position as it was given; with a corner anchor it is the reference position
  with one radius added on \<open>x\<close> for the left anchors and subtracted for the right ones,
  and one radius added on \<open>y\<close> for the top anchors and subtracted for the bottom ones.
\<close>

theorem circle_center_per_anchor:
  assumes "parseValue (getShapeSize (posSize p) SHAPE_CIRCLE) = Inr e"
  shows "circleMask p =
     Inr \<lparr>maskRadius = lvalue e / 2, maskUnit = lunit e,
          maskCenter =
            (if posAnchor p = ANCHOR_MIDDLE
             then \<lparr>centerX = Plain (posX p), centerY = Plain (posY p)\<rparr>
             else \<lparr>centerX =
                     Calc (posX p)
                       (if posAnchor p = ANCHOR_TOP_LEFT \<or> posAnchor p = ANCHOR_BOTTOM_LEFT
                        then Plus else Minus)
                       (Number (lvalue e / 2) (lunit e)),
                   centerY =
                     Calc (posY p)
                       (if posAnchor p = ANCHOR_TOP_LEFT \<or> posAnchor p = ANCHOR_TOP_RIGHT
                        then Plus else Minus)
                       (Number (lvalue e / 2) (lunit e))\<rparr>)\<rparr>"
  using assms
  by (cases "posAnchor p") (simp_all add: circleMask_def calculateCircleCenter_def Let_def)

text \<open>
  The witness: the circle of scenario 3 has the radius \<open>50px\<close> and the centre
  \<^verbatim>\<open>calc(0px + 50px)\<close> on both axes.
\<close>

theorem circle_center_per_anchor_witness:
  "parseValue (getShapeSize (posSize scenario3) SHAPE_CIRCLE) = Inr \<lparr>lvalue = 100, lunit = Px\<rparr>
   \<and> circleMask scenario3 =
       Inr \<lparr>maskRadius = 50, maskUnit = Px,
            maskCenter = \<lparr>centerX = Calc ''0px'' Plus (Number 50 Px),
                           centerY = Calc ''0px'' Plus (Number 50 Px)\<rparr>\<rparr>"
proof -
  have s: "parseValue (getShapeSize (posSize scenario3) SHAPE_CIRCLE)
      = Inr \<lparr>lvalue = 100, lunit = Px\<rparr>"
    by (simp add: scenario3_def getShapeSize_def includesSpace_def parseValue_100px)
  have f: "posAnchor scenario3 = ANCHOR_TOP_LEFT" "posX scenario3 = ''0px''"
    "posY scenario3 = ''0px''"
    by (simp_all add: scenario3_def)
  from circle_center_per_anchor [OF s] s show ?thesis
    by (simp add: f)
qed

section \<open>The edges of the hole, in pixels\<close>

lemma resolveText_Inr:
  "parseValue t = Inr l \<Longrightarrow> resolveText t c = Inr (positionToPixels (lvalue l) (lunit l) c)"
  by (simp add: resolveText_def)

lemma resolve_Plain:
  "parseValue t = Inr l \<Longrightarrow>
   resolveCoordinate (Plain t) c = Inr (positionToPixels (lvalue l) (lunit l) c)"
  by (simp add: resolveCoordinate_def resolveText_Inr)

lemma resolve_Calc_Number:
  "parseValue a = Inr l \<Longrightarrow>
   resolveCoordinate (Calc a sg (Number v u)) c
     = Inr (case sg of
              Plus \<Rightarrow> positionToPixels (lvalue l) (lunit l) c + positionToPixels v u c
            | Minus \<Rightarrow> positionToPixels (lvalue l) (lunit l) c - positionToPixels v u c)"
  by (simp add: resolveCoordinate_def resolveText_Inr resolveOperand_def)

lemma resolve_Calc_Text:
  "parseValue a = Inr l \<Longrightarrow> parseValue t = Inr d \<Longrightarrow>
   resolveCoordinate (Calc a sg (Text t)) c
     = Inr (case sg of
              Plus \<Rightarrow>
                positionToPixels (lvalue l) (lunit l) c + positionToPixels (lvalue d) (lunit d) c
            | Minus \<Rightarrow>
                positionToPixels (lvalue l) (lunit l) c - positionToPixels (lvalue d) (lunit d) c)"
  by (simp add: resolveCoordinate_def resolveText_Inr resolveOperand_def)

lemma positionToPixels_half: "positionToPixels (v / 2) u c = positionToPixels v u c / 2"
  by (simp add: positionToPixels_def)

lemma middle_rectangle:
  assumes "posShape p = SHAPE_RECTANGLE" and "posAnchor p = ANCHOR_MIDDLE"
    and "getHoleBoundaries p = Inr b"
  shows "\<exists>d. parseRectangleDimensions (getShapeSize (posSize p) SHAPE_RECTANGLE) = Inr d
     \<and> b = \<lparr>holeLeft = Calc (posX p) Minus (Number (lvalue (width d) / 2) (lunit (width d))),
            holeTop = Calc (posY p) Minus (Number (lvalue (height d) / 2) (lunit (height d))),
            holeRight = Calc (posX p) Plus (Number (lvalue (width d) / 2) (lunit (width d))),
            holeBottom = Calc (posY p) Plus (Number (lvalue (height d) / 2) (lunit (height d)))\<rparr>"
  using assms by (auto simp: getHoleBoundaries_def Let_def split: sum.splits)

lemma middle_single:
  assumes "posShape p \<noteq> SHAPE_RECTANGLE" and "posAnchor p = ANCHOR_MIDDLE"
    and "getHoleBoundaries p = Inr b"
  shows "\<exists>e. parseValue (getShapeSize (posSize p) (posShape p)) = Inr e
     \<and> b = \<lparr>holeLeft = Calc (posX p) Minus (Number (lvalue e / 2) (lunit e)),
            holeTop = Calc (posY p) Minus (Number (lvalue e / 2) (lunit e)),
            holeRight = Calc (posX p) Plus (Number (lvalue e / 2) (lunit e)),
            holeBottom = Calc (posY p) Plus (Number (lvalue e / 2) (lunit e))\<rparr>"
  using assms
  by (cases "posShape p") (auto simp: getHoleBoundaries_def Let_def split: sum.splits)

lemma middle_shape:
  assumes "posAnchor p = ANCHOR_MIDDLE" and "getHoleBoundaries p = Inr b"
  shows "\<exists>w u h v.
       b = \<lparr>holeLeft = Calc (posX p) Minus (Number (w / 2) u),
            holeTop = Calc (posY p) Minus (Number (h / 2) v),
            holeRight = Calc (posX p) Plus (Number (w / 2) u),
            holeBottom = Calc (posY p) Plus (Number (h / 2) v)\<rparr>"
proof (cases "posShape p = SHAPE_RECTANGLE")
  case True
  from middle_rectangle [OF True assms] show ?thesis by blast
next
  case False
  from middle_single [OF False assms] show ?thesis by blast
qed

lemma circleMask_middle:
  assumes "posAnchor p = ANCHOR_MIDDLE" and "circleMask p = Inr m"
  shows "maskCenter m = \<lparr>centerX = Plain (posX p), centerY = Plain (posY p)\<rparr>"
  using assms by (auto simp: circleMask_def Let_def center_middle split: sum.splits)

text \<open>
  Claim C8. For every shape, when the anchor is \<^verbatim>\<open>ANCHOR_MIDDLE\<close> and the boundaries are
  computed, the four edges resolve to pixels (the horizontal ones against the container's
  width \<open>cw\<close>, the vertical ones against its height \<open>ch\<close>) and the reference point is
  their exact centre: \<open>(left + right) / 2\<close> is the pixel value of \<open>x\<close> and
  \<open>(top + bottom) / 2\<close> is the pixel value of \<open>y\<close>. The centre of the circle mask, when
  there is one, resolves to the same point.
\<close>

theorem middle_anchor_centering:
  assumes "posAnchor p = ANCHOR_MIDDLE" and "getHoleBoundaries p = Inr b"
    and "parseValue (posX p) = Inr lx" and "parseValue (posY p) = Inr ly"
  shows "(\<exists>l r t bo.
       resolveCoordinate (holeLeft b) cw = Inr l \<and> resolveCoordinate (holeRight b) cw = Inr r
     \<and> resolveCoordinate (holeTop b) ch = Inr t \<and> resolveCoordinate (holeBottom b) ch = Inr bo
     \<and> (l + r) / 2 = positionToPixels (lvalue lx) (lunit lx) cw
     \<and> (t + bo) / 2 = positionToPixels (lvalue ly) (lunit ly) ch)
   \<and> (\<forall>m. circleMask p = Inr m \<longrightarrow>
         resolveCoordinate (centerX (maskCenter m)) cw
           = Inr (positionToPixels (lvalue lx) (lunit lx) cw)
       \<and> resolveCoordinate (centerY (maskCenter m)) ch
           = Inr (positionToPixels (lvalue ly) (lunit ly) ch))"
proof -
  from middle_shape [OF assms(1,2)] obtain w u h v where
    b: "b = \<lparr>holeLeft = Calc (posX p) Minus (Number (w / 2) u),
            holeTop = Calc (posY p) Minus (Number (h / 2) v),
            holeRight = Calc (posX p) Plus (Number (w / 2) u),
            holeBottom = Calc (posY p) Plus (Number (h / 2) v)\<rparr>"
    by blast
  have box: "\<exists>l r t bo.
       resolveCoordinate (holeLeft b) cw = Inr l \<and> resolveCoordinate (holeRight b) cw = Inr r
     \<and> resolveCoordinate (holeTop b) ch = Inr t \<and> resolveCoordinate (holeBottom b) ch = Inr bo
     \<and> (l + r) / 2 = positionToPixels (lvalue lx) (lunit lx) cw
     \<and> (t + bo) / 2 = positionToPixels (lvalue ly) (lunit ly) ch"
    unfolding b
    by (simp add: resolve_Calc_Number [OF assms(3)] resolve_Calc_Number [OF assms(4)])
  have circle: "resolveCoordinate (centerX (maskCenter m)) cw
           = Inr (positionToPixels (lvalue lx) (lunit lx) cw)
       \<and> resolveCoordinate (centerY (maskCenter m)) ch
           = Inr (positionToPixels (lvalue ly) (lunit ly) ch)"
    if "circleMask p = Inr m" for m
    using circleMask_middle [OF assms(1) that]
    by (simp add: resolve_Plain [OF assms(3)] resolve_Plain [OF assms(4)])
  from box circle show ?thesis by blast
qed

lemma scenario1_size:
  "parseRectangleDimensions ''200px 100px''
     = Inr \<lparr>width = \<lparr>lvalue = 200, lunit = Px\<rparr>, height = \<lparr>lvalue = 100, lunit = Px\<rparr>\<rparr>"
  by (simp add: parseRectangleDimensions_def parse_defs)

lemma scenario1_bounds:
  "getHoleBoundaries scenario1
     = Inr \<lparr>holeLeft = Calc ''50%'' Minus (Number 100 Px),
            holeTop = Calc ''50%'' Minus (Number 50 Px),
            holeRight = Calc ''50%'' Plus (Number 100 Px),
            holeBottom = Calc ''50%'' Plus (Number 50 Px)\<rparr>"
  by (simp add: getHoleBoundaries_def scenario1_def getShapeSize_def includesSpace_def
      scenario1_size Let_def)

lemma percentCircle_bounds:
  "getHoleBoundaries percentCircle
     = Inr \<lparr>holeLeft = Calc ''50%'' Minus (Number 10 Percent),
            holeTop = Calc ''50%'' Minus (Number 10 Percent),
            holeRight = Calc ''50%'' Plus (Number 10 Percent),
            holeBottom = Calc ''50%'' Plus (Number 10 Percent)\<rparr>"
  by (simp add: getHoleBoundaries_def percentCircle_def getShapeSize_def includesSpace_def
      parseValue_20pct Let_def)

lemma percentCircle_mask:
  "circleMask percentCircle
     = Inr \<lparr>maskRadius = 10, maskUnit = Percent,
            maskCenter = \<lparr>centerX = Plain ''50%'', centerY = Plain ''50%''\<rparr>\<rparr>"
  by (simp add: circleMask_def percentCircle_def getShapeSize_def includesSpace_def
      parseValue_20pct center_middle Let_def)

text \<open>
  The witness is scenario 1 of the specification: in a container of 1000 by 800 the edges
  are \<open>left = 400\<close>, \<open>right = 600\<close>, \<open>top = 350\<close>, \<open>bottom = 450\<close>, around \<open>(500, 400)\<close>;
  and the circle of diameter \<open>20%\<close>, whose mask is centred at \<open>(500, 400)\<close> as well.
\<close>

theorem middle_anchor_centering_witness:
  "posAnchor scenario1 = ANCHOR_MIDDLE
   \<and> getHoleBoundaries scenario1
       = Inr \<lparr>holeLeft = Calc ''50%'' Minus (Number 100 Px),
              holeTop = Calc ''50%'' Minus (Number 50 Px),
              holeRight = Calc ''50%'' Plus (Number 100 Px),
              holeBottom = Calc ''50%'' Plus (Number 50 Px)\<rparr>
   \<and> resolveCoordinate (Calc ''50%'' Minus (Number 100 Px)) 1000 = Inr 400
   \<and> resolveCoordinate (Calc ''50%'' Plus (Number 100 Px)) 1000 = Inr 600
   \<and> resolveCoordinate (Calc ''50%'' Minus (Number 50 Px)) 800 = Inr 350
   \<and> resolveCoordinate (Calc ''50%'' Plus (Number 50 Px)) 800 = Inr 450
   \<and> (400 + 600) / 2 = positionToPixels 50 Percent 1000
   \<and> (350 + 450) / 2 = positionToPixels 50 Percent 800
   \<and> posAnchor percentCircle = ANCHOR_MIDDLE
   \<and> circleMask percentCircle
       = Inr \<lparr>maskRadius = 10, maskUnit = Percent,
              maskCenter = \<lparr>centerX = Plain ''50%'', centerY = Plain ''50%''\<rparr>\<rparr>
   \<and> resolveCoordinate (Plain ''50%'') 1000 = Inr 500
   \<and> resolveCoordinate (Plain ''50%'') 800 = Inr 400"
proof -
  have a: "posAnchor scenario1 = ANCHOR_MIDDLE"
    by (simp add: scenario1_def)
  have x: "parseValue (posX scenario1) = Inr \<lparr>lvalue = 50, lunit = Percent\<rparr>"
    and y: "parseValue (posY scenario1) = Inr \<lparr>lvalue = 50, lunit = Percent\<rparr>"
    by (simp_all add: scenario1_def parseValue_50pct)
  have r: "resolveCoordinate (Calc ''50%'' Minus (Number 100 Px)) 1000 = Inr 400"
    "resolveCoordinate (Calc ''50%'' Plus (Number 100 Px)) 1000 = Inr 600"
    "resolveCoordinate (Calc ''50%'' Minus (Number 50 Px)) 800 = Inr 350"
    "resolveCoordinate (Calc ''50%'' Plus (Number 50 Px)) 800 = Inr 450"
    by (simp_all add: resolve_Calc_Number [OF parseValue_50pct] positionToPixels_def)
  have box: "(400 + 600) / 2 = positionToPixels 50 Percent 1000
      \<and> (350 + 450) / 2 = positionToPixels 50 Percent 800"
    using middle_anchor_centering [OF a scenario1_bounds x y, of 1000 800] r
    by simp
  have a': "posAnchor percentCircle = ANCHOR_MIDDLE"
    by (simp add: percentCircle_def)
  have x': "parseValue (posX percentCircle) = Inr \<lparr>lvalue = 50, lunit = Percent\<rparr>"
    and y': "parseValue (posY percentCircle) = Inr \<lparr>lvalue = 50, lunit = Percent\<rparr>"
    by (simp_all add: percentCircle_def parseValue_50pct)
  have circle: "resolveCoordinate (Plain ''50%'') 1000 = Inr 500
      \<and> resolveCoordinate (Plain ''50%'') 800 = Inr 400"
    using middle_anchor_centering [OF a' percentCircle_bounds x' y', of 1000 800]
      percentCircle_mask
    by (simp add: positionToPixels_def)
  from a scenario1_bounds r box a' percentCircle_mask circle show ?thesis
    by blast
qed

subsection \<open>Anchor symmetry\<close>

text \<open>
  Where the width and the height of the box are read off the resolved edges. For a
  rectangle this holds with every anchor.
\<close>

lemma anchor_symmetry_rectangle:
  assumes "posShape p = SHAPE_RECTANGLE" and "getHoleBoundaries p = Inr b"
    and "parseRectangleDimensions (getShapeSize (posSize p) SHAPE_RECTANGLE) = Inr d"
    and x: "parseValue (posX p) = Inr lx" and y: "parseValue (posY p) = Inr ly"
  shows "\<exists>l r t bo.
       resolveCoordinate (holeLeft b) cw = Inr l \<and> resolveCoordinate (holeRight b) cw = Inr r
     \<and> resolveCoordinate (holeTop b) ch = Inr t \<and> resolveCoordinate (holeBottom b) ch = Inr bo
     \<and> r - l = positionToPixels (lvalue (width d)) (lunit (width d)) cw
     \<and> bo - t = positionToPixels (lvalue (height d)) (lunit (height d)) ch"
  using assms(1-3)
  by (cases "posAnchor p")
     (auto simp: getHoleBoundaries_def Let_def resolve_Plain [OF x] resolve_Plain [OF y]
        resolve_Calc_Number [OF x] resolve_Calc_Number [OF y] positionToPixels_half)

text \<open>
  For a square it holds with \<^verbatim>\<open>ANCHOR_MIDDLE\<close>, and with a corner anchor when the size text
  has no space in it.
\<close>

lemma anchor_symmetry_single:
  assumes "posShape p \<noteq> SHAPE_RECTANGLE" and "getHoleBoundaries p = Inr b"
    and "posAnchor p = ANCHOR_MIDDLE \<or> \<not> includesSpace (posSize p)"
    and e: "parseValue (getShapeSize (posSize p) (posShape p)) = Inr e"
    and x: "parseValue (posX p) = Inr lx" and y: "parseValue (posY p) = Inr ly"
  shows "\<exists>l r t bo.
       resolveCoordinate (holeLeft b) cw = Inr l \<and> resolveCoordinate (holeRight b) cw = Inr r
     \<and> resolveCoordinate (holeTop b) ch = Inr t \<and> resolveCoordinate (holeBottom b) ch = Inr bo
     \<and> r - l = positionToPixels (lvalue e) (lunit e) cw
     \<and> bo - t = positionToPixels (lvalue e) (lunit e) ch"
proof (cases "posAnchor p = ANCHOR_MIDDLE")
  case True
  with assms(1,2) e show ?thesis
    by (cases "posShape p")
       (auto simp: getHoleBoundaries_def Let_def resolve_Calc_Number [OF x]
          resolve_Calc_Number [OF y] positionToPixels_half)
next
  case False
  with assms(3) have "\<not> includesSpace (posSize p)" by simp
  with assms(1) have "getShapeSize (posSize p) (posShape p) = posSize p"
    by (cases "posShape p") (simp_all add: getShapeSize_def)
  with e have sz: "parseValue (posSize p) = Inr e" by simp
  from assms(1,2) e False show ?thesis
    by (cases "posShape p"; cases "posAnchor p")
       (auto simp: getHoleBoundaries_def Let_def resolve_Plain [OF x] resolve_Plain [OF y]
          resolve_Calc_Text [OF x sz] resolve_Calc_Text [OF y sz])
qed

text \<open>
  Claim C2. Anchor symmetry asks that \<open>right - left\<close> is the normalized width for every
  box shape, anchor and size. For a square with a corner anchor the edges interpolate the
  size text as it was given, not the normalized one: with the size \<^verbatim>\<open>200px 400px\<close> the
  normalized extent is \<open>200px\<close>, but the right and the bottom edge are the text
  \<^verbatim>\<open>calc(50% + 200px 400px)\<close>, whose second operand is no length, so the edge has no pixel
  value and \<open>right - left\<close> is not \<open>200\<close>.
\<close>

theorem square_corner_edges_unresolvable:
  "getHoleBoundaries squareCorner
     = Inr \<lparr>holeLeft = Plain ''50%'', holeTop = Plain ''50%'',
            holeRight = Calc ''50%'' Plus (Text ''200px 400px''),
            holeBottom = Calc ''50%'' Plus (Text ''200px 400px'')\<rparr>
   \<and> parseValue (getShapeSize (posSize squareCorner) (posShape squareCorner))
       = Inr \<lparr>lvalue = 200, lunit = Px\<rparr>
   \<and> render fmt (Calc ''50%'' Plus (Text ''200px 400px'')) = ''calc(50% + 200px 400px)''
   \<and> resolveCoordinate (Calc ''50%'' Plus (Text ''200px 400px'')) cw
       = Inl (InvalidPositionValue ''200px 400px'')"
proof -
  have f: "posX squareCorner = ''50%''" "posY squareCorner = ''50%''"
    "posSize squareCorner = ''200px 400px''" "posAnchor squareCorner = ANCHOR_TOP_LEFT"
    "posShape squareCorner = SHAPE_SQUARE"
    by (simp_all add: squareCorner_def)
  have size: "getShapeSize ''200px 400px'' SHAPE_SQUARE = ''200px''"
    by (simp add: getShapeSize_def includesSpace_def)
  have b: "getHoleBoundaries squareCorner
     = Inr \<lparr>holeLeft = Plain ''50%'', holeTop = Plain ''50%'',
            holeRight = Calc ''50%'' Plus (Text ''200px 400px''),
            holeBottom = Calc ''50%'' Plus (Text ''200px 400px'')\<rparr>"
    by (simp add: getHoleBoundaries_def Let_def f size parseValue_200px)
  have r: "render fmt (Calc ''50%'' Plus (Text ''200px 400px'')) = ''calc(50% + 200px 400px)''"
    by (simp add: render_def renderOperand_def)
  have bad: "parseValue ''200px 400px'' = Inl (InvalidPositionValue ''200px 400px'')"
    by (simp add: parseValue_def matchLength_def isDigit_def isUnitText_def)
  have res: "resolveCoordinate (Calc ''50%'' Plus (Text ''200px 400px'')) cw
       = Inl (InvalidPositionValue ''200px 400px'')"
    by (simp add: resolveCoordinate_def resolveOperand_def resolveText_def parseValue_50pct bad)
  show ?thesis
    using b r res by (simp add: f size parseValue_200px)
qed

section \<open>Size normalization\<close>


lemma splitSpace_no_space: "CHR '' '' \<notin> set t \<Longrightarrow> splitSpace t = [t]"
  by (induction t) auto

lemma splitSpace_first:
  "CHR '' '' \<notin> set t \<Longrightarrow> splitSpace (t @ CHR '' '' # r) = t # splitSpace r"
  by (induction t) auto












text \<open>
  Claim C5, as the specification states it: a square or a circle takes the first
  whitespace-separated token of every size text as its extent and raises no error for
  the rest. A tab is whitespace, but \<open>getShapeSize\<close> cuts at the space character only:
  the first token of \<open>tabbedSize\<close> is \<^verbatim>\<open>200px\<close>, yet the size is kept whole and the
  parser refuses it.
\<close>

theorem whitespace_token_counterexample:
  "firstToken tabbedSize = ''200px''
   \<and> parseValue (firstToken tabbedSize) = Inr \<lparr>lvalue = 200, lunit = Px\<rparr>
   \<and> getShapeSize tabbedSize SHAPE_SQUARE = tabbedSize
   \<and> getShapeSize tabbedSize SHAPE_SQUARE \<noteq> firstToken tabbedSize
   \<and> parseValue (getShapeSize tabbedSize SHAPE_SQUARE) = Inl (InvalidPositionValue tabbedSize)"
proof -
  have f: "firstToken tabbedSize = ''200px''"
    by (simp add: firstToken_def tabbedSize_def isWhitespace_def)
  have g: "getShapeSize tabbedSize SHAPE_SQUARE = tabbedSize"
    by (simp add: getShapeSize_def includesSpace_def tabbedSize_def)
  have n: "tabbedSize \<noteq> ''200px''"
    by (simp add: tabbedSize_def)
  have e: "parseValue tabbedSize = Inl (InvalidPositionValue tabbedSize)"
    by (simp add: tabbedSize_def parseValue_def matchLength_def isDigit_def isUnitText_def)
  show ?thesis using f g n e parseValue_200px by simp
qed

text \<open>
  Claim C5, amended. For a square or a circle the normalized size is the part of the size
  text before its first space character: what follows that space is ignored and raises
  no error (the outcome is that of parsing the first part alone), and a size text
  without a space is used unchanged. Whitespace other than the space character does not
  separate tokens.
\<close>

theorem square_circle_first_part:
  assumes "sh = SHAPE_SQUARE \<or> sh = SHAPE_CIRCLE"
  shows "getShapeSize s sh = hd (splitSpace s)
     \<and> (CHR '' '' \<notin> set t \<longrightarrow>
          getShapeSize (t @ CHR '' '' # rest) sh = t
          \<and> parseValue (getShapeSize (t @ CHR '' '' # rest) sh) = parseValue t)
     \<and> (CHR '' '' \<notin> set s \<longrightarrow> getShapeSize s sh = s)"
proof -
  have one: "getShapeSize s sh = hd (splitSpace s)" for s
    using assms by (auto simp: getShapeSize_def includesSpace_def splitSpace_no_space)
  have "CHR '' '' \<notin> set t \<longrightarrow> getShapeSize (t @ CHR '' '' # rest) sh = t"
    by (simp add: one splitSpace_first)
  moreover have "CHR '' '' \<notin> set s \<longrightarrow> getShapeSize s sh = s"
    by (simp add: one splitSpace_no_space)
  ultimately show ?thesis using one by simp
qed

text \<open>
  The witness: the square of scenario 2 has the extent \<^verbatim>\<open>200px\<close> (the \<^verbatim>\<open>400px\<close> is
  dropped without an error), and the single token \<^verbatim>\<open>200px\<close> of a circle is kept as it is.
\<close>

theorem square_circle_first_part_witness:
  "getShapeSize ''200px 400px'' SHAPE_SQUARE = ''200px''
   \<and> parseValue (getShapeSize ''200px 400px'' SHAPE_SQUARE) = Inr \<lparr>lvalue = 200, lunit = Px\<rparr>
   \<and> getShapeSize ''200px'' SHAPE_CIRCLE = ''200px''"
proof -
  have sq: "getShapeSize (''200px'' @ CHR '' '' # ''400px'') SHAPE_SQUARE = ''200px''
      \<and> parseValue (getShapeSize (''200px'' @ CHR '' '' # ''400px'') SHAPE_SQUARE)
          = parseValue ''200px''"
    using square_circle_first_part [of SHAPE_SQUARE "''200px 400px''" "''200px''" "''400px''"]
    by simp
  have ci: "getShapeSize ''200px'' SHAPE_CIRCLE = ''200px''"
    using square_circle_first_part [of SHAPE_CIRCLE "''200px''" "''200px''" "''400px''"]
    by simp
  from sq ci parseValue_200px show ?thesis by simp
qed

end
